theory Spec2Isabelle
  imports Complex_Main
begin

section \<open>The reactor step of the Klein-Vortex simulation core\<close>

text \<open>
  The two source files \<^verbatim>\<open>system_sim_embodiment_b.py\<close> and
  \<^verbatim>\<open>system_sim_embodiment_b_MassProduction.py\<close> each hold a block of module
  constants and a class \<^verbatim>\<open>ReactorSystem\<close> whose method \<^verbatim>\<open>step\<close> advances the
  simulation by one time step.

  Numbers: Python and numpy compute with IEEE doubles; the embedding computes with the
  real numbers, so rounding, overflow and the values \<^verbatim>\<open>inf\<close> and \<^verbatim>\<open>nan\<close> are
  not represented. The comparisons and the order of the assignments are those of the
  source. Where numpy would divide by zero (total drag coefficient zero) it yields
  \<^verbatim>\<open>inf\<close> or \<^verbatim>\<open>nan\<close> with a warning and goes on; HOL's \<open>x / 0\<close> is \<open>0\<close>. The two agree
  whenever the divisor is not zero, which is shown below for every configuration with
  positive viscosity and radii. The exceptions of the operations on Python floats are
  modelled apart, by \<open>step_raises\<close>.
\<close>

subsection \<open>numpy vectors of length three\<close>

type_synonym vec = "real \<times> real \<times> real"

fun vadd :: "vec \<Rightarrow> vec \<Rightarrow> vec" where
  "vadd (a, b, c) (x, y, z) = (a + x, b + y, c + z)"

fun vsub :: "vec \<Rightarrow> vec \<Rightarrow> vec" where
  "vsub (a, b, c) (x, y, z) = (a - x, b - y, c - z)"

fun vscale :: "vec \<Rightarrow> real \<Rightarrow> vec" where
  "vscale (a, b, c) k = (a * k, b * k, c * k)"

fun vdiv :: "vec \<Rightarrow> real \<Rightarrow> vec" where
  "vdiv (a, b, c) k = (a / k, b / k, c / k)"

fun idx0 :: "vec \<Rightarrow> real" where
  "idx0 (a, b, c) = a"

fun idx1 :: "vec \<Rightarrow> real" where
  "idx1 (a, b, c) = b"

fun idx2 :: "vec \<Rightarrow> real" where
  "idx2 (a, b, c) = c"

text \<open>The assignment \<^verbatim>\<open>v[2] = k\<close>.\<close>

fun set_idx2 :: "vec \<Rightarrow> real \<Rightarrow> vec" where
  "set_idx2 (a, b, c) k = (a, b, k)"

text \<open>\<^verbatim>\<open>np.linalg.norm\<close> of a vector: the Euclidean norm.\<close>

fun linalg_norm :: "vec \<Rightarrow> real" where
  "linalg_norm (a, b, c) = sqrt (a\<^sup>2 + b\<^sup>2 + c\<^sup>2)"

text \<open>\<^verbatim>\<open>np.clip(x, lo, hi)\<close> is \<^verbatim>\<open>minimum(maximum(x, lo), hi)\<close>.\<close>

definition np_clip :: "real \<Rightarrow> real \<Rightarrow> real \<Rightarrow> real" where
  "np_clip x lo hi = min (max x lo) hi"

subsection \<open>Module constants\<close>

text \<open>
  The constants that \<^verbatim>\<open>step\<close> and its helpers read, as one record, so that the two
  files are two values of it. \<^verbatim>\<open>TOTAL_TIME\<close> is read by the driver loop only.
\<close>

record config =
  G :: real
  RHO_FLUID :: real
  RHO_PARTICLE :: real
  VISCOSITY :: real
  R_TANK :: real
  LIFT_SPEED :: real
  RPM_FLUID :: real
  RPM_MAGNET :: real
  MAGNET_STIFFNESS :: real
  R_CORE :: real
  R_CNT :: real
  GROWTH_RATE :: real
  ADHESION_LIMIT :: real
  DT :: real

text \<open>The constants of \<^verbatim>\<open>system_sim_embodiment_b.py\<close> (the "precision" profile).\<close>

definition consts_embodiment_b :: config where
  "consts_embodiment_b =
     \<lparr> G = 9.81, RHO_FLUID = 750, RHO_PARTICLE = 8900, VISCOSITY = 0.4 / 10 ^ 3,
       R_TANK = 0.05, LIFT_SPEED = 0.0004, RPM_FLUID = 100, RPM_MAGNET = 99.95,
       MAGNET_STIFFNESS = 2 / 10 ^ 5, R_CORE = 3 / 10 ^ 6, R_CNT = 20 / 10 ^ 9,
       GROWTH_RATE = 80 / 10 ^ 6, ADHESION_LIMIT = 400 / 10 ^ 9, DT = 0.0005 \<rparr>"

text \<open>The constants of \<^verbatim>\<open>system_sim_embodiment_b_MassProduction.py\<close> (the "robust" profile).\<close>

definition consts_MassProduction :: config where
  "consts_MassProduction =
     \<lparr> G = 9.81, RHO_FLUID = 750, RHO_PARTICLE = 8900, VISCOSITY = 0.6 / 10 ^ 3,
       R_TANK = 0.05, LIFT_SPEED = 0.0004, RPM_FLUID = 100, RPM_MAGNET = 99.8,
       MAGNET_STIFFNESS = 2 / 10 ^ 5, R_CORE = 3 / 10 ^ 6, R_CNT = 20 / 10 ^ 9,
       GROWTH_RATE = 80 / 10 ^ 6, ADHESION_LIMIT = 300 / 10 ^ 9, DT = 0.0005 \<rparr>"

subsection \<open>The state of a \<^verbatim>\<open>ReactorSystem\<close>\<close>

record ReactorSystem =
  pos :: vec
  cnt_length :: real
  break_counter :: int
  max_length_record :: real
  thermal_energy :: real
  r_vapor :: real
  power_input :: real
  pid_err_sum :: real
  pid_last_err :: real
  current_z_vel_real :: real

text \<open>\<^verbatim>\<open>__init__\<close>.\<close>

definition init :: "config \<Rightarrow> ReactorSystem" where
  "init c =
     \<lparr> pos = (R_TANK c, 0, 0), cnt_length = 1 / 10 ^ 9, break_counter = 0,
       max_length_record = 0, thermal_energy = 0, r_vapor = 0, power_input = 0,
       pid_err_sum = 0, pid_last_err = 0, current_z_vel_real = 0 \<rparr>"

text \<open>The tuple that \<^verbatim>\<open>step\<close> returns, field by field.\<close>

record step_result =
  res_pos :: vec
  res_cnt_length :: real
  res_power_input :: real
  res_current_target_vel :: real
  res_r_vapor :: real
  res_f_tension :: real
  res_broken :: bool

subsection \<open>\<^verbatim>\<open>get_fluid_velocity_field\<close> and \<^verbatim>\<open>get_magnetic_target\<close>\<close>

definition get_fluid_velocity_field :: "config \<Rightarrow> vec \<Rightarrow> vec" where
  "get_fluid_velocity_field c p =
     (let omega_fluid = (RPM_FLUID c / 60) * 2 * pi;
          r = sqrt ((idx0 p)\<^sup>2 + (idx1 p)\<^sup>2)
      in if r < 1 / 10 ^ 6 then (0, 0, LIFT_SPEED c)
         else
           (let v_tan_mag = omega_fluid * r;
                tan_vec = vdiv (- idx1 p, idx0 p, 0) r;
                v_fluid = vscale tan_vec v_tan_mag
            in set_idx2 v_fluid (LIFT_SPEED c)))"

definition get_magnetic_target :: "config \<Rightarrow> ReactorSystem \<Rightarrow> real \<Rightarrow> vec" where
  "get_magnetic_target c s t =
     (let omega_mag = (RPM_MAGNET c / 60) * 2 * pi;
          angle = omega_mag * t
      in (R_TANK c * cos angle, R_TANK c * sin angle, idx2 (pos s)))"

subsection \<open>The sections of \<^verbatim>\<open>step\<close>\<close>

text \<open>1. Soft start: the ramped target velocity.\<close>

definition current_target_vel :: "config \<Rightarrow> real \<Rightarrow> real" where
  "current_target_vel c t =
     (let ramp_time = 20
      in if t < ramp_time then LIFT_SPEED c * (t / ramp_time) else LIFT_SPEED c)"

text \<open>2. Chemical growth.\<close>

definition chemical_growth :: "config \<Rightarrow> ReactorSystem \<Rightarrow> ReactorSystem" where
  "chemical_growth c s =
     (let l = cnt_length s + GROWTH_RATE c * DT c
      in s\<lparr> cnt_length := l,
            max_length_record := (if l > max_length_record s then l else max_length_record s) \<rparr>)"

text \<open>3. The PID loop, with the sensor noise of this step as an argument.\<close>

definition pid_control :: "config \<Rightarrow> real \<Rightarrow> real \<Rightarrow> ReactorSystem \<Rightarrow> ReactorSystem" where
  "pid_control c t noise s =
     (let measured_vel = current_z_vel_real s + noise;
          z_error = current_target_vel c t - measured_vel;
          err_sum = np_clip (pid_err_sum s + z_error * DT c) (- 0.5) 0.5;
          d_err = (z_error - pid_last_err s) / DT c;
          kp = 80000; ki = 5000; kd = 500;
          adj = (kp * z_error) + (ki * err_sum) + (kd * d_err)
      in s\<lparr> pid_err_sum := err_sum,
            power_input := np_clip (power_input s + adj * DT c) 0 150,
            pid_last_err := z_error \<rparr>)"

text \<open>
  4. Thermodynamics. The base of the power is never negative (the energy is clamped at
  0 just before), where Python's \<^verbatim>\<open>**\<close> and \<open>powr\<close> agree.
\<close>

definition thermodynamics :: "config \<Rightarrow> ReactorSystem \<Rightarrow> ReactorSystem" where
  "thermodynamics c s =
     (let cooling_loss = thermal_energy s * 2;
          d_energy = (power_input s - cooling_loss) * DT c;
          e = max 0 (thermal_energy s + d_energy);
          k_vol = 1 / 10 ^ 13
      in s\<lparr> thermal_energy := e, r_vapor := (e * k_vol) powr (1 / 3) \<rparr>)"

text \<open>
  5. Forces and mass. Each quantity is a function of the values its expression reads:
  the vapor radius \<open>rv\<close>, the filament length \<open>l\<close>, the state (for the position).
\<close>

definition vol_core :: "config \<Rightarrow> real" where
  "vol_core c = (4 / 3) * pi * R_CORE c ^ 3"

definition vol_vapor :: "real \<Rightarrow> real" where
  "vol_vapor rv = (4 / 3) * pi * rv ^ 3"

definition vol_total :: "config \<Rightarrow> real \<Rightarrow> real" where
  "vol_total c rv = vol_core c + vol_vapor rv"

definition mass_particle :: "config \<Rightarrow> real" where
  "mass_particle c = vol_core c * RHO_PARTICLE c"

definition vol_cnt :: "config \<Rightarrow> real \<Rightarrow> real" where
  "vol_cnt c l = pi * (R_CNT c)\<^sup>2 * l"

definition mass_cnt :: "config \<Rightarrow> real \<Rightarrow> real" where
  "mass_cnt c l = vol_cnt c l * 2200"

definition total_mass :: "config \<Rightarrow> real \<Rightarrow> real" where
  "total_mass c l = mass_particle c + mass_cnt c l"

definition f_buoy :: "config \<Rightarrow> real \<Rightarrow> real" where
  "f_buoy c rv = vol_total c rv * RHO_FLUID c * G c"

definition f_grav :: "config \<Rightarrow> real \<Rightarrow> real" where
  "f_grav c l = total_mass c l * G c"

definition f_z_net :: "config \<Rightarrow> real \<Rightarrow> real \<Rightarrow> real" where
  "f_z_net c rv l = f_buoy c rv - f_grav c l"

definition f_mag :: "config \<Rightarrow> ReactorSystem \<Rightarrow> real \<Rightarrow> vec" where
  "f_mag c s t =
     (let target_pos = get_magnetic_target c s t;
          dist_vec = set_idx2 (vsub target_pos (pos s)) 0
      in vscale dist_vec (MAGNET_STIFFNESS c))"

definition f_cent :: "config \<Rightarrow> ReactorSystem \<Rightarrow> vec" where
  "f_cent c s =
     (let omega_fluid = (RPM_FLUID c / 60) * 2 * pi
      in vscale (idx0 (pos s), idx1 (pos s), 0) (total_mass c (cnt_length s) * omega_fluid\<^sup>2))"

text \<open>6. Hydrodynamics and motion integration.\<close>

definition gamma_sphere :: "config \<Rightarrow> real \<Rightarrow> real" where
  "gamma_sphere c rv = (let r_eff_sphere = R_CORE c + rv in 6 * pi * VISCOSITY c * r_eff_sphere)"

definition gamma_cnt :: "config \<Rightarrow> real \<Rightarrow> real" where
  "gamma_cnt c l =
     (if l > 10 * R_CNT c then
        (let eps = (2 * l) / R_CNT c;
             denom = ln eps - 0.5
         in (2 * pi * VISCOSITY c * l) / denom)
      else 0)"

definition gamma_total :: "config \<Rightarrow> real \<Rightarrow> real \<Rightarrow> real" where
  "gamma_total c rv l = gamma_sphere c rv + gamma_cnt c l"

definition f_external :: "config \<Rightarrow> ReactorSystem \<Rightarrow> real \<Rightarrow> vec" where
  "f_external c s t =
     (let f = vadd (f_mag c s t) (f_cent c s)
      in set_idx2 f (idx2 f + f_z_net c (r_vapor s) (cnt_length s)))"

definition v_drift :: "config \<Rightarrow> ReactorSystem \<Rightarrow> real \<Rightarrow> vec" where
  "v_drift c s t = vdiv (f_external c s t) (gamma_total c (r_vapor s) (cnt_length s))"

definition v_total :: "config \<Rightarrow> ReactorSystem \<Rightarrow> real \<Rightarrow> vec" where
  "v_total c s t = vadd (get_fluid_velocity_field c (pos s)) (v_drift c s t)"

definition motion_integration :: "config \<Rightarrow> real \<Rightarrow> ReactorSystem \<Rightarrow> ReactorSystem" where
  "motion_integration c t s =
     s\<lparr> pos := vadd (pos s) (vscale (v_total c s t) (DT c)),
        current_z_vel_real := idx2 (v_total c s t) \<rparr>"

text \<open>7. Tear-off analysis.\<close>

definition f_tension :: "config \<Rightarrow> ReactorSystem \<Rightarrow> real \<Rightarrow> real" where
  "f_tension c s t = linalg_norm (v_drift c s t) * gamma_cnt c (cnt_length s)"

definition tear_off :: "config \<Rightarrow> bool \<Rightarrow> ReactorSystem \<Rightarrow> ReactorSystem" where
  "tear_off c broken s =
     (if broken then s\<lparr> break_counter := break_counter s + 1, cnt_length := 1 / 10 ^ 9 \<rparr> else s)"

subsection \<open>\<^verbatim>\<open>step\<close>\<close>

text \<open>
  The body of \<^verbatim>\<open>step\<close> of \<^verbatim>\<open>system_sim_embodiment_b.py\<close> with the value drawn at
  \<^verbatim>\<open>noise = np.random.normal(0, 0.0002)\<close> as the argument \<open>noise\<close>. The forces, the
  drag coefficients and the tension are computed from the state after section 4 (\<open>s3\<close>):
  the position is still the old one, length, energy and vapor radius are the new ones.
\<close>

definition step_noise :: "config \<Rightarrow> ReactorSystem \<Rightarrow> real \<Rightarrow> real \<Rightarrow> ReactorSystem \<times> step_result" where
  "step_noise c s t noise =
     (let s1 = chemical_growth c s;
          s2 = pid_control c t noise s1;
          s3 = thermodynamics c s2;
          s4 = motion_integration c t s3;
          tension = f_tension c s3 t;
          broken = (tension > ADHESION_LIMIT c \<and> t > 5);
          s5 = tear_off c broken s4
      in (s5,
          \<lparr> res_pos = pos s5, res_cnt_length = cnt_length s5,
            res_power_input = power_input s5,
            res_current_target_vel = current_target_vel c t,
            res_r_vapor = r_vapor s5, res_f_tension = tension, res_broken = broken \<rparr>))"

text \<open>
  The state after sections 2 to 4, on which sections 5 to 7 compute (\<open>s3\<close> above).
\<close>

definition pre_motion :: "config \<Rightarrow> ReactorSystem \<Rightarrow> real \<Rightarrow> real \<Rightarrow> ReactorSystem" where
  "pre_motion c s t noise = thermodynamics c (pid_control c t noise (chemical_growth c s))"

text \<open>
  \<^verbatim>\<open>step\<close> as the source has it: the noise is drawn inside the method from numpy's
  global generator. The generator is modelled by the sequence of the values its next
  calls return; a call takes the first and leaves the rest.
\<close>

type_synonym np_random = "nat \<Rightarrow> real"

definition random_normal :: "np_random \<Rightarrow> real \<times> np_random" where
  "random_normal g = (g 0, \<lambda>n. g (Suc n))"

definition step :: "config \<Rightarrow> ReactorSystem \<times> np_random \<Rightarrow> real \<Rightarrow> (ReactorSystem \<times> np_random) \<times> step_result" where
  "step c w t =
     (let (noise, g') = random_normal (snd w);
          (s', res) = step_noise c (fst w) t noise
      in ((s', g'), res))"

text \<open>Two generators for examples: one that returns \<open>x\<close> at every call, and values in a row.\<close>

definition always :: "real \<Rightarrow> np_random" where
  "always x = (\<lambda>n. x)"

definition first_then :: "real \<Rightarrow> np_random \<Rightarrow> np_random" where
  "first_then x g = (\<lambda>n. case n of 0 \<Rightarrow> x | Suc m \<Rightarrow> g m)"

subsection \<open>Exceptions\<close>

text \<open>
  \<^verbatim>\<open>step\<close> holds no \<^verbatim>\<open>raise\<close> and no \<^verbatim>\<open>assert\<close>; what can raise are its
  operations on two Python floats. The same operations with a numpy operand (an array or
  a value that \<^verbatim>\<open>np.clip\<close>, \<^verbatim>\<open>np.log\<close> or an array has returned) warn and go on with
  \<^verbatim>\<open>inf\<close> or \<^verbatim>\<open>nan\<close>. In the order of the first file (the second has the same
  statements one line further down):
  \<^item> line 114, \<^verbatim>\<open>(z_error - self.pid_last_err) / DT\<close>: \<^verbatim>\<open>ZeroDivisionError\<close> when
    \<^verbatim>\<open>DT\<close> is 0. Both operands are Python floats on an object on which no step has
    completed, and with \<^verbatim>\<open>DT\<close> = 0 none completes;
  \<^item> line 136, \<^verbatim>\<open>R_CORE**3\<close>, line 141, \<^verbatim>\<open>R_CNT**2\<close>, and line 157,
    \<^verbatim>\<open>omega_fluid**2\<close>: \<^verbatim>\<open>OverflowError\<close> when the power is out of the range of doubles;
  \<^item> line 165, \<^verbatim>\<open>(2 * self.cnt_length) / R_CNT\<close>, on the slender-body branch only:
    \<^verbatim>\<open>ZeroDivisionError\<close> when \<^verbatim>\<open>R_CNT\<close> is 0.

  No other operation raises. Line 167 divides by the numpy value \<^verbatim>\<open>denom\<close>, line 177
  divides a numpy array by \<^verbatim>\<open>gamma_total\<close>, \<^verbatim>\<open>np.log\<close> of a number that is not
  positive warns, and the multiplications and additions of Python floats overflow to
  \<^verbatim>\<open>inf\<close> silently.
\<close>

datatype py_exception = ZeroDivisionError | OverflowError

text \<open>
  A double power rounds to infinity from \<open>2^1024 - 2^970\<close> on (half a unit in the last
  place above the largest double); Python's \<^verbatim>\<open>**\<close> on floats then raises.
\<close>

definition overflow_threshold :: real where
  "overflow_threshold = 2 ^ 1024 - 2 ^ 970"

definition float_pow_overflows :: "real \<Rightarrow> nat \<Rightarrow> bool" where
  "float_pow_overflows x n \<longleftrightarrow> overflow_threshold \<le> \<bar>x ^ n\<bar>"

text \<open>
  The exception a call of \<^verbatim>\<open>step\<close> raises, \<open>None\<close> when the call returns. Where it
  returns with no division by zero and no logarithm of a number that is not positive on
  the way, the returned values are those of \<open>step_noise\<close>.
\<close>

definition step_raises :: "config \<Rightarrow> ReactorSystem \<Rightarrow> real \<Rightarrow> real \<Rightarrow> py_exception option" where
  "step_raises c s t noise =
     (if DT c = 0 then Some ZeroDivisionError
      else if float_pow_overflows (R_CORE c) 3 then Some OverflowError
      else if float_pow_overflows (R_CNT c) 2 then Some OverflowError
      else if float_pow_overflows ((RPM_FLUID c / 60) * 2 * pi) 2 then Some OverflowError
      else if cnt_length s + GROWTH_RATE c * DT c > 10 * R_CNT c \<and> R_CNT c = 0
        then Some ZeroDivisionError
      else None)"

subsection \<open>Repeated steps\<close>

text \<open>The state after a list of steps, each with its elapsed time and its noise sample.\<close>

fun run :: "config \<Rightarrow> ReactorSystem \<Rightarrow> (real \<times> real) list \<Rightarrow> ReactorSystem" where
  "run c s [] = s"
| "run c s ((t, noise) # ins) = run c (fst (step_noise c s t noise)) ins"

text \<open>
  The driver loop \<^verbatim>\<open>for i in range(steps): t = i * DT; sim.step(t)\<close> after \<open>n\<close>
  iterations, from a fresh \<^verbatim>\<open>ReactorSystem()\<close> and the generator \<open>g\<close>. Its states are
  states of \<open>run\<close>, with the elapsed times \<open>i * DT\<close> and the values the generator returns
  (lemma \<open>simulate_run\<close> below).
\<close>

fun simulate :: "config \<Rightarrow> np_random \<Rightarrow> nat \<Rightarrow> ReactorSystem \<times> np_random" where
  "simulate c g 0 = (init c, g)"
| "simulate c g (Suc i) = fst (step c (simulate c g i) (real i * DT c))"

subsection \<open>The second file\<close>

text \<open>
  \<^verbatim>\<open>system_sim_embodiment_b_MassProduction.py\<close>, transcribed on its own: its two helper
  methods, and the body of its \<^verbatim>\<open>step\<close> as one chain of assignments in the order of
  the file, again with the noise as an argument.
\<close>

definition get_fluid_velocity_field_MassProduction :: "config \<Rightarrow> vec \<Rightarrow> vec" where
  "get_fluid_velocity_field_MassProduction c p =
     (case p of (p0, p1, p2) \<Rightarrow>
        let omega_fluid = (RPM_FLUID c / 60) * 2 * pi;
            r = sqrt (p0\<^sup>2 + p1\<^sup>2)
        in if r < 1 / 10 ^ 6 then (0, 0, LIFT_SPEED c)
           else (case vscale (vdiv (- p1, p0, 0) r) (omega_fluid * r) of
                   (v0, v1, v2) \<Rightarrow> (v0, v1, LIFT_SPEED c)))"

definition get_magnetic_target_MassProduction :: "config \<Rightarrow> vec \<Rightarrow> real \<Rightarrow> vec" where
  "get_magnetic_target_MassProduction c p t =
     (case p of (p0, p1, p2) \<Rightarrow>
        let omega_mag = (RPM_MAGNET c / 60) * 2 * pi;
            angle = omega_mag * t
        in (R_TANK c * cos angle, R_TANK c * sin angle, p2))"

definition step_MassProduction :: "config \<Rightarrow> ReactorSystem \<Rightarrow> real \<Rightarrow> real \<Rightarrow> ReactorSystem \<times> step_result" where
  "step_MassProduction c s t noise =
     (let ramp_time = 20;
          target_vel = (if t < ramp_time then LIFT_SPEED c * (t / ramp_time) else LIFT_SPEED c);
          len1 = cnt_length s + GROWTH_RATE c * DT c;
          record1 = (if len1 > max_length_record s then len1 else max_length_record s);
          measured_vel = current_z_vel_real s + noise;
          z_error = target_vel - measured_vel;
          err_sum1 = np_clip (pid_err_sum s + z_error * DT c) (- 0.5) 0.5;
          d_err = (z_error - pid_last_err s) / DT c;
          adj = (80000 * z_error) + (5000 * err_sum1) + (500 * d_err);
          power1 = np_clip (power_input s + adj * DT c) 0 150;
          cooling_loss = thermal_energy s * 2;
          d_energy = (power1 - cooling_loss) * DT c;
          energy1 = max 0 (thermal_energy s + d_energy);
          k_vol = 1 / 10 ^ 13;
          rv1 = (energy1 * k_vol) powr (1 / 3);
          v_core = (4 / 3) * pi * R_CORE c ^ 3;
          v_vapor = (4 / 3) * pi * rv1 ^ 3;
          v_tot = v_core + v_vapor;
          m_particle = v_core * RHO_PARTICLE c;
          v_cnt = pi * (R_CNT c)\<^sup>2 * len1;
          m_cnt = v_cnt * 2200;
          m_total = m_particle + m_cnt;
          buoy = v_tot * RHO_FLUID c * G c;
          grav = m_total * G c;
          z_net = buoy - grav;
          target_pos = get_magnetic_target_MassProduction c (pos s) t;
          dist_vec = (case vsub target_pos (pos s) of (d0, d1, d2) \<Rightarrow> (d0, d1, 0));
          mag = vscale dist_vec (MAGNET_STIFFNESS c);
          omega_fluid = (RPM_FLUID c / 60) * 2 * pi;
          cent = (case pos s of (p0, p1, p2) \<Rightarrow> vscale (p0, p1, 0) (m_total * omega_fluid\<^sup>2));
          r_eff_sphere = R_CORE c + rv1;
          g_sphere = 6 * pi * VISCOSITY c * r_eff_sphere;
          g_cnt = (if len1 > 10 * R_CNT c
                   then (2 * pi * VISCOSITY c * len1) / (ln ((2 * len1) / R_CNT c) - 0.5)
                   else 0);
          g_total = g_sphere + g_cnt;
          ext = (case vadd mag cent of (e0, e1, e2) \<Rightarrow> (e0, e1, e2 + z_net));
          drift = vdiv ext g_total;
          drift_mag = linalg_norm drift;
          fluid = get_fluid_velocity_field_MassProduction c (pos s);
          total = vadd fluid drift;
          pos1 = vadd (pos s) (vscale total (DT c));
          z_vel1 = idx2 total;
          tension = drift_mag * g_cnt;
          broken = (tension > ADHESION_LIMIT c \<and> t > 5);
          counter1 = (if broken then break_counter s + 1 else break_counter s);
          len2 = (if broken then 1 / 10 ^ 9 else len1)
      in (\<lparr> pos = pos1, cnt_length = len2, break_counter = counter1,
            max_length_record = record1, thermal_energy = energy1, r_vapor = rv1,
            power_input = power1, pid_err_sum = err_sum1, pid_last_err = z_error,
            current_z_vel_real = z_vel1 \<rparr>,
          \<lparr> res_pos = pos1, res_cnt_length = len2, res_power_input = power1,
            res_current_target_vel = target_vel, res_r_vapor = rv1,
            res_f_tension = tension, res_broken = broken \<rparr>))"

subsection \<open>Predicates used in the proofs\<close>

text \<open>The clamps of sections 3 and 4 hold.\<close>

definition clamped :: "ReactorSystem \<Rightarrow> bool" where
  "clamped s \<longleftrightarrow>
     0 \<le> power_input s \<and> power_input s \<le> 150 \<and> - 0.5 \<le> pid_err_sum s \<and> pid_err_sum s \<le> 0.5 \<and>
     0 \<le> thermal_energy s \<and> 0 \<le> r_vapor s"

text \<open>The thermal energy and the vapor radius are below their bounds.\<close>

definition thermal_bounded :: "ReactorSystem \<Rightarrow> bool" where
  "thermal_bounded s \<longleftrightarrow>
     thermal_energy s \<le> 75 \<and> r_vapor s \<le> (75 * (1 / 10 ^ 13)) powr (1 / 3)"

text \<open>The filament is at least as long as the seed.\<close>

definition length_above_seed :: "ReactorSystem \<Rightarrow> bool" where
  "length_above_seed s \<longleftrightarrow> 1 / 10 ^ 9 \<le> cnt_length s"

subsection \<open>A state for the examples\<close>

text \<open>
  A filament of one metre, the particle on the tank circle opposite to where the trap
  starts, rising at the lift speed, cold and unpowered.
\<close>

definition opposite_state :: ReactorSystem where
  "opposite_state =
     \<lparr> pos = (- 0.05, 0, 0), cnt_length = 1, break_counter = 0,
       max_length_record = 1, thermal_energy = 0, r_vapor = 0, power_input = 0,
       pid_err_sum = 0, pid_last_err = 0, current_z_vel_real = 0.0004 \<rparr>"

section \<open>Properties\<close>

subsection \<open>Auxiliary facts\<close>

lemma tear_off_fields:
  "tear_off c b s =
     s\<lparr> break_counter := (if b then break_counter s + 1 else break_counter s),
        cnt_length := (if b then 1 / 10 ^ 9 else cnt_length s) \<rparr>"
  by (simp add: tear_off_def)

lemma gamma_cnt_unfold:
  "gamma_cnt c l =
     (if l > 10 * R_CNT c then (2 * pi * VISCOSITY c * l) / (ln ((2 * l) / R_CNT c) - 0.5) else 0)"
  unfolding gamma_cnt_def Let_def ..

lemma get_fluid_velocity_field_MassProduction_eq:
  "get_fluid_velocity_field_MassProduction c p = get_fluid_velocity_field c p"
  by (cases p)
    (simp add: get_fluid_velocity_field_MassProduction_def get_fluid_velocity_field_def Let_def)

lemma get_magnetic_target_MassProduction_eq:
  "get_magnetic_target_MassProduction c (pos s) t = get_magnetic_target c s t"
  by (cases "pos s")
    (simp add: get_magnetic_target_MassProduction_def get_magnetic_target_def Let_def)

lemma np_clip_bounds: "lo \<le> hi \<Longrightarrow> lo \<le> np_clip x lo hi \<and> np_clip x lo hi \<le> hi"
  by (simp add: np_clip_def)

lemma step_noise_pre_motion:
  "step_noise c s t noise =
     (let s3 = pre_motion c s t noise;
          tension = f_tension c s3 t;
          broken = (tension > ADHESION_LIMIT c \<and> t > 5);
          s5 = tear_off c broken (motion_integration c t s3)
      in (s5,
          \<lparr> res_pos = pos s5, res_cnt_length = cnt_length s5,
            res_power_input = power_input s5,
            res_current_target_vel = current_target_vel c t,
            res_r_vapor = r_vapor s5, res_f_tension = tension, res_broken = broken \<rparr>))"
  unfolding step_noise_def pre_motion_def Let_def ..

lemma pre_motion_cnt_length [simp]:
  "cnt_length (pre_motion c s t noise) = cnt_length s + GROWTH_RATE c * DT c"
  by (simp add: pre_motion_def thermodynamics_def pid_control_def chemical_growth_def Let_def)

lemma pre_motion_pos [simp]: "pos (pre_motion c s t noise) = pos s"
  by (simp add: pre_motion_def thermodynamics_def pid_control_def chemical_growth_def Let_def)

lemma pre_motion_break_counter [simp]:
  "break_counter (pre_motion c s t noise) = break_counter s"
  by (simp add: pre_motion_def thermodynamics_def pid_control_def chemical_growth_def Let_def)

lemma pre_motion_max_length_record [simp]:
  "max_length_record (pre_motion c s t noise) =
     max (max_length_record s) (cnt_length s + GROWTH_RATE c * DT c)"
  by (simp add: pre_motion_def thermodynamics_def pid_control_def chemical_growth_def Let_def max_def)

lemma pre_motion_power_input:
  "0 \<le> power_input (pre_motion c s t noise) \<and> power_input (pre_motion c s t noise) \<le> 150"
  using np_clip_bounds[of 0 150]
  by (simp add: pre_motion_def thermodynamics_def pid_control_def chemical_growth_def Let_def)

lemma pre_motion_pid_err_sum:
  "- 0.5 \<le> pid_err_sum (pre_motion c s t noise) \<and> pid_err_sum (pre_motion c s t noise) \<le> 0.5"
  using np_clip_bounds[of "- 0.5" "0.5"]
  by (simp add: pre_motion_def thermodynamics_def pid_control_def chemical_growth_def Let_def)

lemma pre_motion_thermal_energy:
  "thermal_energy (pre_motion c s t noise) =
     max 0 (thermal_energy s
       + (power_input (pre_motion c s t noise) - thermal_energy s * 2) * DT c)"
  by (simp add: pre_motion_def thermodynamics_def pid_control_def chemical_growth_def Let_def)

lemma pre_motion_r_vapor:
  "r_vapor (pre_motion c s t noise) =
     (thermal_energy (pre_motion c s t noise) * (1 / 10 ^ 13)) powr (1 / 3)"
  by (simp add: pre_motion_def thermodynamics_def pid_control_def chemical_growth_def Let_def)

lemma step_noise_fields:
  "pos (fst (step_noise c s t noise)) =
     vadd (pos s) (vscale (v_total c (pre_motion c s t noise) t) (DT c))"
  "current_z_vel_real (fst (step_noise c s t noise)) = idx2 (v_total c (pre_motion c s t noise) t)"
  "power_input (fst (step_noise c s t noise)) = power_input (pre_motion c s t noise)"
  "pid_err_sum (fst (step_noise c s t noise)) = pid_err_sum (pre_motion c s t noise)"
  "thermal_energy (fst (step_noise c s t noise)) = thermal_energy (pre_motion c s t noise)"
  "r_vapor (fst (step_noise c s t noise)) = r_vapor (pre_motion c s t noise)"
  "max_length_record (fst (step_noise c s t noise)) =
     max (max_length_record s) (cnt_length s + GROWTH_RATE c * DT c)"
  "res_f_tension (snd (step_noise c s t noise)) = f_tension c (pre_motion c s t noise) t"
  "res_broken (snd (step_noise c s t noise)) =
     (f_tension c (pre_motion c s t noise) t > ADHESION_LIMIT c \<and> t > 5)"
  "break_counter (fst (step_noise c s t noise)) =
     (if res_broken (snd (step_noise c s t noise)) then break_counter s + 1 else break_counter s)"
  "cnt_length (fst (step_noise c s t noise)) =
     (if res_broken (snd (step_noise c s t noise)) then 1 / 10 ^ 9
      else cnt_length s + GROWTH_RATE c * DT c)"
  "res_cnt_length (snd (step_noise c s t noise)) = cnt_length (fst (step_noise c s t noise))"
  "res_pos (snd (step_noise c s t noise)) = pos (fst (step_noise c s t noise))"
  "res_power_input (snd (step_noise c s t noise)) = power_input (fst (step_noise c s t noise))"
  "res_r_vapor (snd (step_noise c s t noise)) = r_vapor (fst (step_noise c s t noise))"
  "res_current_target_vel (snd (step_noise c s t noise)) = current_target_vel c t"
  by (simp_all add: step_noise_pre_motion Let_def tear_off_def motion_integration_def)

lemma run_append: "run c s (ins @ [(t, noise)]) = fst (step_noise c (run c s ins) t noise)"
  by (induction ins arbitrary: s) auto

lemma powr_third_nonneg: "0 \<le> (x::real) powr (1 / 3)"
  by simp

lemma pre_motion_thermal_nonneg: "0 \<le> thermal_energy (pre_motion c s t noise)"
  by (simp add: pre_motion_thermal_energy)

lemma pre_motion_r_vapor_nonneg: "0 \<le> r_vapor (pre_motion c s t noise)"
  by (simp add: pre_motion_r_vapor)

lemma clamped_init: "clamped (init c)"
  by (simp add: clamped_def init_def)

lemma clamped_step: "clamped (fst (step_noise c s t noise))"
  using pre_motion_power_input[of c s t noise] pre_motion_pid_err_sum[of c s t noise]
    pre_motion_thermal_nonneg[of c s t noise] pre_motion_r_vapor_nonneg[of c s t noise]
  by (simp add: clamped_def step_noise_fields)

lemma clamped_run: "clamped s \<Longrightarrow> clamped (run c s ins)"
  by (induction ins arbitrary: s) (auto simp: clamped_step)

lemma simulate_run:
  "fst (simulate c g n) = run c (init c) (map (\<lambda>i. (real i * DT c, g i)) [0..<n]) \<and>
   snd (simulate c g n) = (\<lambda>i. g (n + i))"
proof (induction n)
  case 0
  show ?case by simp
next
  case (Suc n)
  then show ?case
    by (simp add: step_def random_normal_def run_append split_def Let_def)
qed

lemma thermal_update_le:
  fixes e p dt :: real
  assumes "0 < dt" "dt \<le> 1 / 2" "e \<le> 75" "p \<le> 150"
  shows "max 0 (e + (p - e * 2) * dt) \<le> 75"
proof -
  have a: "e * (1 - 2 * dt) \<le> 75 * (1 - 2 * dt)"
    using assms by (intro mult_right_mono) auto
  have b: "p * dt \<le> 150 * dt"
    using assms by (intro mult_right_mono) auto
  have "e + (p - e * 2) * dt = e * (1 - 2 * dt) + p * dt"
    by (simp add: algebra_simps)
  also have "\<dots> \<le> 75 * (1 - 2 * dt) + 150 * dt"
    using a b by linarith
  also have "\<dots> = 75" by simp
  finally show ?thesis by simp
qed

lemma pre_motion_thermal_le:
  assumes "0 < DT c" "DT c \<le> 1 / 2" "thermal_energy s \<le> 75"
  shows "thermal_energy (pre_motion c s t noise) \<le> 75"
  unfolding pre_motion_thermal_energy
  using assms pre_motion_power_input[of c s t noise] by (intro thermal_update_le) auto

lemma pre_motion_r_vapor_le:
  assumes "thermal_energy (pre_motion c s t noise) \<le> 75"
  shows "r_vapor (pre_motion c s t noise) \<le> (75 * (1 / 10 ^ 13)) powr (1 / 3)"
  unfolding pre_motion_r_vapor
  using assms pre_motion_thermal_nonneg[of c s t noise] by (intro powr_mono2) auto

lemma thermal_bounded_init: "thermal_bounded (init c)"
  by (simp add: thermal_bounded_def init_def)

lemma thermal_bounded_step:
  assumes "0 < DT c" "DT c \<le> 1 / 2" "thermal_bounded s"
  shows "thermal_bounded (fst (step_noise c s t noise))"
  using pre_motion_thermal_le[OF assms(1,2), of s t noise] assms(3)
    pre_motion_r_vapor_le[of c s t noise]
  by (simp add: thermal_bounded_def step_noise_fields)

lemma thermal_bounded_run:
  assumes "0 < DT c" "DT c \<le> 1 / 2"
  shows "thermal_bounded s \<Longrightarrow> thermal_bounded (run c s ins)"
  by (induction ins arbitrary: s) (auto simp: thermal_bounded_step[OF assms])

lemma length_above_seed_init: "length_above_seed (init c)"
  by (simp add: length_above_seed_def init_def)

lemma length_above_seed_step:
  assumes "0 < GROWTH_RATE c * DT c" "length_above_seed s"
  shows "length_above_seed (fst (step_noise c s t noise))"
  using assms by (simp add: length_above_seed_def step_noise_fields)

lemma length_above_seed_run:
  assumes "0 < GROWTH_RATE c * DT c"
  shows "length_above_seed s \<Longrightarrow> length_above_seed (run c s ins)"
  by (induction ins arbitrary: s) (auto simp: length_above_seed_step[OF assms])

lemma get_fluid_velocity_field_idx2: "idx2 (get_fluid_velocity_field c p) = LIFT_SPEED c"
  by (cases p) (simp add: get_fluid_velocity_field_def Let_def)

lemma step_noise_eq_MassProduction:
  "step_noise c s t noise = step_MassProduction c s t noise"
proof -
  define len1 where "len1 = cnt_length s + GROWTH_RATE c * DT c"
  define tv where "tv = (if t < 20 then LIFT_SPEED c * (t / 20) else LIFT_SPEED c)"
  define zerr where "zerr = tv - (current_z_vel_real s + noise)"
  define esum where "esum = np_clip (pid_err_sum s + zerr * DT c) (- 0.5) 0.5"
  define pw where "pw = np_clip (power_input s
      + ((80000 * zerr) + (5000 * esum) + (500 * ((zerr - pid_last_err s) / DT c))) * DT c) 0 150"
  define en where "en = max 0 (thermal_energy s + (pw - thermal_energy s * 2) * DT c)"
  define rv where "rv = (en * (1 / 10 ^ 13)) powr (1 / 3)"
  define s3 where "s3 = thermodynamics c (pid_control c t noise (chemical_growth c s))"
  have tv: "current_target_vel c t = tv"
    by (simp add: current_target_vel_def tv_def)
  have s3: "s3 = s\<lparr> cnt_length := len1,
      max_length_record := (if len1 > max_length_record s then len1 else max_length_record s),
      pid_err_sum := esum, power_input := pw, pid_last_err := zerr,
      thermal_energy := en, r_vapor := rv \<rparr>"
    unfolding s3_def thermodynamics_def pid_control_def chemical_growth_def Let_def tv
    by (simp add: len1_def zerr_def esum_def pw_def en_def rv_def)
  obtain p0 p1 p2 len bc rec e r pwr es le zv where p: "s = \<lparr>pos = (p0, p1, p2),
      cnt_length = len, break_counter = bc, max_length_record = rec, thermal_energy = e,
      r_vapor = r, power_input = pwr, pid_err_sum = es, pid_last_err = le,
      current_z_vel_real = zv\<rparr>"
    by (cases s, cases "pos s") auto
  show ?thesis
    unfolding step_noise_def Let_def s3_def[symmetric] tv
    unfolding step_MassProduction_def Let_def get_fluid_velocity_field_MassProduction_eq
      get_magnetic_target_MassProduction_eq
    unfolding len1_def[symmetric] tv_def[symmetric]
    unfolding zerr_def[symmetric]
    unfolding esum_def[symmetric]
    unfolding pw_def[symmetric]
    unfolding en_def[symmetric]
    unfolding rv_def[symmetric]
    by (simp add: s3 p tear_off_fields motion_integration_def f_tension_def v_total_def
         v_drift_def f_external_def gamma_total_def gamma_cnt_unfold gamma_sphere_def f_cent_def
         f_mag_def f_z_net_def f_grav_def f_buoy_def total_mass_def mass_cnt_def vol_cnt_def
         mass_particle_def vol_total_def vol_vapor_def vol_core_def get_magnetic_target_def
         Let_def split del: if_split cong del: if_weak_cong)
qed

lemma pre_motion_set_pos: "pre_motion c (s\<lparr>pos := p\<rparr>) t noise = (pre_motion c s t noise)\<lparr>pos := p\<rparr>"
  by (simp add: pre_motion_def thermodynamics_def pid_control_def chemical_growth_def Let_def)

lemma pre_motion_trap_config:
  "pre_motion (c\<lparr>R_TANK := a, RPM_MAGNET := b, MAGNET_STIFFNESS := k\<rparr>) s t noise
     = pre_motion c s t noise"
  by (simp add: pre_motion_def thermodynamics_def pid_control_def chemical_growth_def Let_def
      current_target_vel_def)

lemma f_z_net_trap_config:
  "f_z_net (c\<lparr>R_TANK := a, RPM_MAGNET := b, MAGNET_STIFFNESS := k\<rparr>) rv l = f_z_net c rv l"
  by (simp add: f_z_net_def f_buoy_def f_grav_def vol_total_def vol_core_def vol_vapor_def
      total_mass_def mass_particle_def mass_cnt_def vol_cnt_def)

lemma gamma_total_trap_config:
  "gamma_total (c\<lparr>R_TANK := a, RPM_MAGNET := b, MAGNET_STIFFNESS := k\<rparr>) rv l = gamma_total c rv l"
  by (simp add: gamma_total_def gamma_sphere_def gamma_cnt_unfold)

lemma idx2_f_mag: "idx2 (f_mag c s t) = 0"
  by (cases "pos s") (simp add: f_mag_def get_magnetic_target_def Let_def)

lemma idx2_f_cent: "idx2 (f_cent c s) = 0"
  by (simp add: f_cent_def Let_def)

lemma idx2_vadd: "idx2 (vadd u v) = idx2 u + idx2 v"
  by (cases u; cases v) simp

lemma idx2_vdiv: "idx2 (vdiv u k) = idx2 u / k"
  by (cases u) simp

lemma idx2_set_idx2: "idx2 (set_idx2 u k) = k"
  by (cases u) simp

lemma idx2_v_total:
  "idx2 (v_total c s t) =
     LIFT_SPEED c + f_z_net c (r_vapor s) (cnt_length s) / gamma_total c (r_vapor s) (cnt_length s)"
  by (simp add: v_total_def v_drift_def f_external_def Let_def idx2_vadd idx2_vdiv idx2_set_idx2
      idx2_f_mag idx2_f_cent get_fluid_velocity_field_idx2)

lemma exp_half_less_20: "exp (1 / 2 :: real) < 20"
proof -
  have "exp (1 / 2 :: real) \<le> exp 1" by simp
  also have "\<dots> \<le> 3" by (rule exp_le)
  finally show ?thesis by simp
qed

lemma slender_denominator_pos:
  assumes "0 < r" "10 * r < (l::real)"
  shows "0 < ln (2 * l / r) - 0.5"
proof -
  have "20 < 2 * l / r"
    using assms by (simp add: pos_less_divide_eq)
  then have "exp (1 / 2) < 2 * l / r"
    using exp_half_less_20 by linarith
  then have "ln (exp (1 / 2 :: real)) < ln (2 * l / r)"
    by (subst ln_less_cancel_iff) (auto intro: less_trans[OF exp_gt_zero])
  then show ?thesis by simp
qed

lemma gamma_cnt_nonneg:
  assumes "0 < VISCOSITY c" "0 < R_CNT c"
  shows "0 \<le> gamma_cnt c l"
proof (cases "10 * R_CNT c < l")
  case True
  then have "0 < ln (2 * l / R_CNT c) - 0.5"
    using assms slender_denominator_pos by blast
  moreover have "0 < l" using True assms by linarith
  ultimately show ?thesis
    using assms True by (simp add: gamma_cnt_unfold)
next
  case False
  then show ?thesis by (simp add: gamma_cnt_unfold)
qed

lemma gamma_sphere_pos:
  assumes "0 < VISCOSITY c" "0 < R_CORE c" "0 \<le> rv"
  shows "0 < gamma_sphere c rv"
  using assms by (simp add: gamma_sphere_def Let_def add_pos_nonneg)

lemma gamma_total_pos:
  assumes "0 < VISCOSITY c" "0 < R_CORE c" "0 < R_CNT c" "0 \<le> rv"
  shows "0 < gamma_total c rv l"
  using gamma_sphere_pos[OF assms(1,2,4)] gamma_cnt_nonneg[OF assms(1,3), of l]
  by (simp add: gamma_total_def)

subsection \<open>Exceptions with the constants of the files\<close>

lemma omega_fluid_no_overflow:
  assumes "RPM_FLUID c = 100"
  shows "\<not> float_pow_overflows ((RPM_FLUID c / 60) * 2 * pi) 2"
proof -
  have "((RPM_FLUID c / 60) * 2 * pi)\<^sup>2 = (100 / 9) * pi\<^sup>2"
    by (simp add: assms power2_eq_square)
  also have "\<dots> \<le> (100 / 9) * 4\<^sup>2"
    using pi_less_4 by (intro mult_left_mono power_mono) simp_all
  finally have "\<bar>((RPM_FLUID c / 60) * 2 * pi)\<^sup>2\<bar> \<le> 1600 / 9"
    by simp
  moreover have "(1600 / 9 :: real) < overflow_threshold"
    by (simp add: overflow_threshold_def)
  ultimately show ?thesis
    by (simp add: float_pow_overflows_def)
qed

lemma step_raises_None:
  assumes "DT c = 0.0005" "R_CORE c = 3 / 10 ^ 6" "R_CNT c = 20 / 10 ^ 9" "RPM_FLUID c = 100"
  shows "step_raises c s t noise = None"
  using omega_fluid_no_overflow[OF assms(4)]
  by (simp add: step_raises_def assms float_pow_overflows_def overflow_threshold_def power_divide)

lemma step_raises_embodiment_b: "step_raises consts_embodiment_b s t noise = None"
  by (rule step_raises_None) (simp_all add: consts_embodiment_b_def)

lemma step_raises_MassProduction: "step_raises consts_MassProduction s t noise = None"
  by (rule step_raises_None) (simp_all add: consts_MassProduction_def)

subsection \<open>The example state: a filament that tears off\<close>

lemma opposite_power_6: "power_input (pre_motion consts_embodiment_b opposite_state 6 0) = 0"
  by (simp add: pre_motion_def thermodynamics_def pid_control_def chemical_growth_def Let_def
      current_target_vel_def consts_embodiment_b_def opposite_state_def np_clip_def)

lemma opposite_power_0: "power_input (pre_motion consts_embodiment_b opposite_state 0 0) = 0"
  by (simp add: pre_motion_def thermodynamics_def pid_control_def chemical_growth_def Let_def
      current_target_vel_def consts_embodiment_b_def opposite_state_def np_clip_def)

lemma opposite_r_vapor:
  assumes "power_input (pre_motion consts_embodiment_b opposite_state t 0) = 0"
  shows "r_vapor (pre_motion consts_embodiment_b opposite_state t 0) = 0"
  unfolding pre_motion_r_vapor pre_motion_thermal_energy assms
  by (simp add: opposite_state_def)

lemma opposite_cnt_length:
  "cnt_length (pre_motion consts_embodiment_b opposite_state t 0) = 1 + 1 / 25000000"
  by (simp add: opposite_state_def consts_embodiment_b_def)

lemma opposite_pos:
  "pos (pre_motion consts_embodiment_b opposite_state t 0) = (- 0.05, 0, 0)"
  by (simp add: opposite_state_def)

lemma linalg_norm_ge_idx0: "\<bar>idx0 v\<bar> \<le> linalg_norm v"
proof (cases v)
  case (fields a b c)
  have "sqrt (a\<^sup>2) \<le> sqrt (a\<^sup>2 + b\<^sup>2 + c\<^sup>2)"
    by (rule real_sqrt_le_mono) simp
  then show ?thesis by (simp add: fields)
qed

lemma idx0_vdiv: "idx0 (vdiv u k) = idx0 u / k"
  by (cases u) simp

lemma f_tension_lower_bound:
  assumes gs: "0 < gamma_sphere c (r_vapor s)"
    and le: "gamma_sphere c (r_vapor s) \<le> gamma_cnt c (cnt_length s)"
    and b: "0 \<le> b" "b \<le> \<bar>idx0 (f_external c s t)\<bar>"
  shows "b / 2 \<le> f_tension c s t"
proof -
  define g where "g = gamma_total c (r_vapor s) (cnt_length s)"
  define gc where "gc = gamma_cnt c (cnt_length s)"
  have g: "0 < g" "g \<le> 2 * gc" and gc: "0 < gc"
    using gs le by (simp_all add: g_def gc_def gamma_total_def)
  have half: "1 / 2 \<le> gc / g"
    using g by (simp add: pos_le_divide_eq)
  have "\<bar>idx0 (f_external c s t)\<bar> / g = \<bar>idx0 (v_drift c s t)\<bar>"
    using g by (simp add: v_drift_def idx0_vdiv g_def)
  also have "\<dots> \<le> linalg_norm (v_drift c s t)"
    by (rule linalg_norm_ge_idx0)
  finally have up: "\<bar>idx0 (f_external c s t)\<bar> / g * gc \<le> f_tension c s t"
    unfolding f_tension_def gc_def[symmetric] using gc by (intro mult_right_mono) auto
  have lo: "b * (1 / 2) \<le> \<bar>idx0 (f_external c s t)\<bar> * (gc / g)"
    using b half by (intro mult_mono) auto
  have "b / 2 = b * (1 / 2)" by simp
  also have "\<dots> \<le> \<bar>idx0 (f_external c s t)\<bar> * (gc / g)" by (rule lo)
  also have "\<dots> = \<bar>idx0 (f_external c s t)\<bar> / g * gc" by simp
  also have "\<dots> \<le> f_tension c s t" by (rule up)
  finally show ?thesis .
qed

lemma idx0_f_external:
  assumes "pos s = (x, y, z)"
  shows "idx0 (f_external c s t) =
    (R_TANK c * cos ((RPM_MAGNET c / 60) * 2 * pi * t) - x) * MAGNET_STIFFNESS c
      + x * (total_mass c (cnt_length s) * ((RPM_FLUID c / 60) * 2 * pi)\<^sup>2)"
  by (simp add: f_external_def f_mag_def f_cent_def get_magnetic_target_def Let_def assms)

lemma cos_20pi_minus: "cos (20 * pi - x) = cos x"
proof -
  have c: "cos (20 * pi) = 1" using cos_2npi[of 10] by simp
  have s: "sin (20 * pi) = 0" using sin_2npi[of 10] by simp
  show ?thesis by (simp add: cos_diff c s)
qed

lemma cos_magnet_6: "0 \<le> cos ((RPM_MAGNET consts_embodiment_b / 60) * 2 * pi * 6)"
proof -
  have "(RPM_MAGNET consts_embodiment_b / 60) * 2 * pi * 6 = 20 * pi - pi / 100"
    by (simp add: consts_embodiment_b_def)
  then have "cos ((RPM_MAGNET consts_embodiment_b / 60) * 2 * pi * 6) = cos (pi / 100)"
    by (simp only: cos_20pi_minus)
  then show ?thesis
    using cos_ge_zero[of "pi / 100"] pi_gt_zero by simp
qed

lemma ln_le_27: "ln (2 * (1 + 1 / 25000000) / (20 / 10 ^ 9) :: real) \<le> 27"
proof -
  have "ln (2 * (1 + 1 / 25000000) / (20 / 10 ^ 9) :: real) \<le> ln 134217728"
    by (subst ln_le_cancel_iff) simp_all
  also have "\<dots> = 27 * ln (2 :: real)"
    using ln_realpow[of "2 :: real" 27] by simp
  also have "\<dots> \<le> 27"
    using ln_2_less_1 by simp
  finally show ?thesis .
qed

lemma opposite_gamma_sphere:
  "gamma_sphere consts_embodiment_b 0 = pi * (72 / 10 ^ 10)"
  by (simp add: gamma_sphere_def consts_embodiment_b_def)

lemma opposite_gamma_cnt:
  "gamma_sphere consts_embodiment_b 0 \<le> gamma_cnt consts_embodiment_b (1 + 1 / 25000000)"
proof -
  define d :: real where "d = ln (2 * (1 + 1 / 25000000) / (20 / 10 ^ 9)) - 0.5"
  have d_pos: "0 < d"
    unfolding d_def by (rule slender_denominator_pos) simp_all
  have d_le: "d \<le> 27"
    unfolding d_def using ln_le_27 by simp
  have gc: "gamma_cnt consts_embodiment_b (1 + 1 / 25000000)
      = pi * (8 / 10 ^ 4 * (1 + 1 / 25000000)) / d"
    by (simp add: gamma_cnt_unfold consts_embodiment_b_def d_def)
  have "72 / 10 ^ 10 * d \<le> 72 / 10 ^ 10 * (27 :: real)"
    using d_le by (intro mult_left_mono) simp_all
  also have "\<dots> \<le> 8 / 10 ^ 4 * (1 + 1 / 25000000)" by simp
  finally have "72 / 10 ^ 10 \<le> 8 / 10 ^ 4 * (1 + 1 / 25000000) / d"
    using d_pos by (simp add: pos_le_divide_eq)
  then have "pi * (72 / 10 ^ 10) \<le> pi * (8 / 10 ^ 4 * (1 + 1 / 25000000) / d)"
    by (intro mult_left_mono) simp_all
  then show ?thesis
    unfolding gc opposite_gamma_sphere by simp
qed

lemma opposite_centrifugal:
  "total_mass consts_embodiment_b (1 + 1 / 25000000)
     * ((RPM_FLUID consts_embodiment_b / 60) * 2 * pi)\<^sup>2 \<le> 1 / 10 ^ 9"
proof -
  have p3: "pi ^ 3 \<le> 4 ^ 3"
    using pi_less_4 by (intro power_mono) simp_all
  have "total_mass consts_embodiment_b (1 + 1 / 25000000)
      * ((RPM_FLUID consts_embodiment_b / 60) * 2 * pi)\<^sup>2
    = pi ^ 3 * ((4 / 3 * (3 / 10 ^ 6) ^ 3 * 8900
         + (20 / 10 ^ 9)\<^sup>2 * (1 + 1 / 25000000) * 2200) * (100 / 9))"
    by (simp add: total_mass_def mass_particle_def mass_cnt_def vol_cnt_def vol_core_def
        consts_embodiment_b_def power2_eq_square power3_eq_cube algebra_simps)
  also have "\<dots> \<le> 4 ^ 3 * ((4 / 3 * (3 / 10 ^ 6) ^ 3 * 8900
         + (20 / 10 ^ 9)\<^sup>2 * (1 + 1 / 25000000) * 2200) * (100 / 9))"
    using p3 by (intro mult_right_mono) simp_all
  also have "\<dots> \<le> 1 / 10 ^ 9" by (simp add: power_divide)
  finally show ?thesis .
qed

lemma opposite_tension:
  assumes pw: "power_input (pre_motion consts_embodiment_b opposite_state t 0) = 0"
    and cs: "0 \<le> cos ((RPM_MAGNET consts_embodiment_b / 60) * 2 * pi * t)"
  shows "ADHESION_LIMIT consts_embodiment_b
           < f_tension consts_embodiment_b (pre_motion consts_embodiment_b opposite_state t 0) t"
proof -
  define s3 where "s3 = pre_motion consts_embodiment_b opposite_state t 0"
  define m where "m = total_mass consts_embodiment_b (1 + 1 / 25000000)
     * ((RPM_FLUID consts_embodiment_b / 60) * 2 * pi)\<^sup>2"
  define k where "k = cos ((RPM_MAGNET consts_embodiment_b / 60) * 2 * pi * t)"
  have rv: "r_vapor s3 = 0"
    unfolding s3_def by (rule opposite_r_vapor[OF pw])
  have l: "cnt_length s3 = 1 + 1 / 25000000"
    unfolding s3_def by (rule opposite_cnt_length)
  have p: "pos s3 = (- 0.05, 0, 0)"
    unfolding s3_def by (rule opposite_pos)
  have f0: "idx0 (f_external consts_embodiment_b s3 t) = (0.05 * k + 0.05) * (2 / 10 ^ 5) - 0.05 * m"
    unfolding idx0_f_external[OF p] l m_def k_def by (simp add: consts_embodiment_b_def)
  have "m \<le> 1 / 10 ^ 9"
    unfolding m_def by (rule opposite_centrifugal)
  moreover have "0 \<le> 0.05 * k * (2 / 10 ^ 5)"
    using cs unfolding k_def by simp
  ultimately have b: "99 / 10 ^ 8 \<le> \<bar>idx0 (f_external consts_embodiment_b s3 t)\<bar>"
    unfolding f0 by (simp add: algebra_simps)
  have gs: "0 < gamma_sphere consts_embodiment_b (r_vapor s3)"
    unfolding rv opposite_gamma_sphere by simp
  have le: "gamma_sphere consts_embodiment_b (r_vapor s3)
      \<le> gamma_cnt consts_embodiment_b (cnt_length s3)"
    unfolding rv l by (rule opposite_gamma_cnt)
  have "99 / 10 ^ 8 / 2 \<le> f_tension consts_embodiment_b s3 t"
    by (rule f_tension_lower_bound[OF gs le _ b]) simp
  then show ?thesis
    unfolding s3_def by (simp add: consts_embodiment_b_def)
qed

lemma opposite_breaks_at_6:
  "res_broken (snd (step_noise consts_embodiment_b opposite_state 6 0))"
  using opposite_tension[OF opposite_power_6 cos_magnet_6] by (simp add: step_noise_fields)

lemma opposite_tension_at_0:
  "ADHESION_LIMIT consts_embodiment_b
     < res_f_tension (snd (step_noise consts_embodiment_b opposite_state 0 0))"
  using opposite_tension[OF opposite_power_0] by (simp add: step_noise_fields)

lemma opposite_growth:
  "cnt_length opposite_state + GROWTH_RATE consts_embodiment_b * DT consts_embodiment_b
     = 1 + 1 / 25000000"
  by (simp add: opposite_state_def consts_embodiment_b_def)

section \<open>The claims\<close>

subsection \<open>The break\<close>

text \<open>
  Claim C1. The break flag returned by a step is true exactly when the tension computed in
  the step exceeds the adhesion limit and the elapsed time exceeds 5. On a step with a
  break the break counter grows by one, the filament length is the seed length and the
  length record is not reset (it is the maximum of the old record and the grown length);
  on a step without a break the counter is unchanged; with an elapsed time of at most 5
  there is no break, whatever the tension.
\<close>

theorem C1_break:
  "res_broken (snd (step_noise c s t noise)) =
     (res_f_tension (snd (step_noise c s t noise)) > ADHESION_LIMIT c \<and> t > 5) \<and>
   res_f_tension (snd (step_noise c s t noise)) = f_tension c (pre_motion c s t noise) t \<and>
   (res_broken (snd (step_noise c s t noise)) \<longrightarrow>
      break_counter (fst (step_noise c s t noise)) = break_counter s + 1 \<and>
      cnt_length (fst (step_noise c s t noise)) = 1 / 10 ^ 9 \<and>
      max_length_record (fst (step_noise c s t noise)) =
         max (max_length_record s) (cnt_length s + GROWTH_RATE c * DT c)) \<and>
   (\<not> res_broken (snd (step_noise c s t noise)) \<longrightarrow>
      break_counter (fst (step_noise c s t noise)) = break_counter s) \<and>
   (t \<le> 5 \<longrightarrow> \<not> res_broken (snd (step_noise c s t noise)))"
  by (simp add: step_noise_fields)

text \<open>
  A step of the example state at time 6 breaks; at time 0 the tension exceeds the limit
  as well, and there is no break.
\<close>

theorem C1_break_witness:
  "res_broken (snd (step_noise consts_embodiment_b opposite_state 6 0)) \<and>
   break_counter (fst (step_noise consts_embodiment_b opposite_state 6 0)) = 1 \<and>
   cnt_length (fst (step_noise consts_embodiment_b opposite_state 6 0)) = 1 / 10 ^ 9 \<and>
   max_length_record (fst (step_noise consts_embodiment_b opposite_state 6 0))
     = 1 + 1 / 25000000 \<and>
   (0 :: real) \<le> 5 \<and>
   ADHESION_LIMIT consts_embodiment_b
     < res_f_tension (snd (step_noise consts_embodiment_b opposite_state 0 0)) \<and>
   \<not> res_broken (snd (step_noise consts_embodiment_b opposite_state 0 0)) \<and>
   break_counter (fst (step_noise consts_embodiment_b opposite_state 0 0)) = 0"
proof -
  have bc: "break_counter opposite_state = 0" and rec: "max_length_record opposite_state = 1"
    by (simp_all add: opposite_state_def)
  show ?thesis
    using C1_break[of consts_embodiment_b opposite_state 6 0]
      C1_break[of consts_embodiment_b opposite_state 0 0]
      opposite_breaks_at_6 opposite_tension_at_0
    by (simp add: bc rec opposite_growth)
qed

subsection \<open>The drag coefficients\<close>

text \<open>
  Claim C2, as the code has it. The division by the total drag coefficient is not
  guarded (see the example after the theorem). With a positive viscosity, core radius and
  filament radius the total drag coefficient of every step is positive, and whenever the
  slender-body branch is taken the denominator \<open>ln (2 l / R_CNT) - 0.5\<close> is positive: a
  drag coefficient that is not positive and a denominator that is not positive do not
  occur.
\<close>

theorem C2_drag_well_defined:
  assumes "0 < VISCOSITY c" and "0 < R_CORE c" and "0 < R_CNT c"
  shows "0 < gamma_total c (r_vapor (pre_motion c s t noise)) (cnt_length (pre_motion c s t noise)) \<and>
         (10 * R_CNT c < cnt_length (pre_motion c s t noise) \<longrightarrow>
            0 < ln (2 * cnt_length (pre_motion c s t noise) / R_CNT c) - 0.5)"
  using gamma_total_pos[OF assms pre_motion_r_vapor_nonneg, of c s t noise]
    slender_denominator_pos[OF assms(3)]
  by (simp del: pre_motion_cnt_length)

theorem C2_drag_well_defined_witness:
  "0 < VISCOSITY consts_embodiment_b \<and> 0 < R_CORE consts_embodiment_b \<and>
   0 < R_CNT consts_embodiment_b \<and>
   10 * R_CNT consts_embodiment_b
     < cnt_length (pre_motion consts_embodiment_b opposite_state 6 0) \<and>
   0 < ln (2 * cnt_length (pre_motion consts_embodiment_b opposite_state 6 0)
            / R_CNT consts_embodiment_b) - 0.5 \<and>
   0 < gamma_total consts_embodiment_b
         (r_vapor (pre_motion consts_embodiment_b opposite_state 6 0))
         (cnt_length (pre_motion consts_embodiment_b opposite_state 6 0))"
proof -
  have h: "0 < VISCOSITY consts_embodiment_b" "0 < R_CORE consts_embodiment_b"
    "0 < R_CNT consts_embodiment_b"
    by (simp_all add: consts_embodiment_b_def)
  have l: "10 * R_CNT consts_embodiment_b
      < cnt_length (pre_motion consts_embodiment_b opposite_state 6 0)"
    by (simp add: opposite_growth) (simp add: consts_embodiment_b_def)
  show ?thesis
    using C2_drag_well_defined[OF h, of opposite_state 6 0] h l by blast
qed

text \<open>
  The claim as stated is false: with the viscosity set to zero and the other constants of
  the first file, the total drag coefficient of the first step is zero and the step raises
  no exception. Line 177 divides the force array by zero and the call returns.
\<close>

theorem C2_no_guard_counterexample:
  "gamma_total (consts_embodiment_b\<lparr>VISCOSITY := 0\<rparr>)
     (r_vapor (pre_motion (consts_embodiment_b\<lparr>VISCOSITY := 0\<rparr>)
        (init (consts_embodiment_b\<lparr>VISCOSITY := 0\<rparr>)) 0 0))
     (cnt_length (pre_motion (consts_embodiment_b\<lparr>VISCOSITY := 0\<rparr>)
        (init (consts_embodiment_b\<lparr>VISCOSITY := 0\<rparr>)) 0 0)) = 0 \<and>
   step_raises (consts_embodiment_b\<lparr>VISCOSITY := 0\<rparr>)
     (init (consts_embodiment_b\<lparr>VISCOSITY := 0\<rparr>)) 0 0 = None"
proof -
  have "step_raises (consts_embodiment_b\<lparr>VISCOSITY := 0\<rparr>)
      (init (consts_embodiment_b\<lparr>VISCOSITY := 0\<rparr>)) 0 0 = None"
    by (rule step_raises_None) (simp_all add: consts_embodiment_b_def)
  then show ?thesis
    by (simp add: gamma_total_def gamma_sphere_def gamma_cnt_unfold consts_embodiment_b_def
        init_def)
qed

subsection \<open>Clamped state variables\<close>

text \<open>
  Claim C3. After any number of steps from the initial state, with any elapsed times and
  any noise samples, the power input lies in [0, 150], the PID integral in [-0.5, 0.5],
  and the thermal energy and the vapor radius are not negative.
\<close>

theorem C3_clamps:
  "0 \<le> power_input (run c (init c) ins) \<and> power_input (run c (init c) ins) \<le> 150 \<and>
   - 0.5 \<le> pid_err_sum (run c (init c) ins) \<and> pid_err_sum (run c (init c) ins) \<le> 0.5 \<and>
   0 \<le> thermal_energy (run c (init c) ins) \<and> 0 \<le> r_vapor (run c (init c) ins)"
  using clamped_run[OF clamped_init, of c c ins] by (simp add: clamped_def)

subsection \<open>The filament length\<close>

text \<open>
  Claim C4. With a positive growth rate and time step: on a step without a break the
  filament length grows by exactly \<open>GROWTH_RATE * DT\<close>, hence strictly; on a step with a
  break the returned length and the stored length are the seed length \<open>1e-9\<close>; and after
  any number of steps from the initial state the length is at least the seed length.
\<close>

theorem C4_filament_length:
  assumes "0 < GROWTH_RATE c" and "0 < DT c"
  shows "(\<not> res_broken (snd (step_noise c s t noise)) \<longrightarrow>
            cnt_length (fst (step_noise c s t noise)) = cnt_length s + GROWTH_RATE c * DT c \<and>
            cnt_length s < cnt_length (fst (step_noise c s t noise))) \<and>
         (res_broken (snd (step_noise c s t noise)) \<longrightarrow>
            res_cnt_length (snd (step_noise c s t noise)) = 1 / 10 ^ 9 \<and>
            cnt_length (fst (step_noise c s t noise)) = 1 / 10 ^ 9) \<and>
         1 / 10 ^ 9 \<le> cnt_length (run c (init c) ins)"
proof -
  have pos: "0 < GROWTH_RATE c * DT c"
    using assms by simp
  show ?thesis
    using length_above_seed_run[OF pos length_above_seed_init, of c ins] pos
    by (simp add: length_above_seed_def step_noise_fields)
qed

theorem C4_filament_length_witness:
  "0 < GROWTH_RATE consts_embodiment_b \<and> 0 < DT consts_embodiment_b \<and>
   \<not> res_broken (snd (step_noise consts_embodiment_b opposite_state 0 0)) \<and>
   cnt_length (fst (step_noise consts_embodiment_b opposite_state 0 0)) = 1 + 1 / 25000000 \<and>
   res_broken (snd (step_noise consts_embodiment_b opposite_state 6 0)) \<and>
   res_cnt_length (snd (step_noise consts_embodiment_b opposite_state 6 0)) = 1 / 10 ^ 9 \<and>
   1 / 10 ^ 9 \<le> cnt_length (run consts_embodiment_b (init consts_embodiment_b) [(0, 0)])"
proof -
  have h: "0 < GROWTH_RATE consts_embodiment_b" "0 < DT consts_embodiment_b"
    by (simp_all add: consts_embodiment_b_def)
  have nb: "\<not> res_broken (snd (step_noise consts_embodiment_b opposite_state 0 0))"
    by (simp add: step_noise_fields)
  show ?thesis
    using C4_filament_length[OF h, of opposite_state 0 0 "[(0, 0)]"]
      C4_filament_length[OF h, of opposite_state 6 0 "[(0, 0)]"]
      h nb opposite_breaks_at_6
    by (simp add: opposite_growth)
qed

subsection \<open>The two files are one engine\<close>

text \<open>
  Claim C5. With the module constants as a parameter, \<^verbatim>\<open>step\<close> of
  \<^verbatim>\<open>system_sim_embodiment_b.py\<close> and \<^verbatim>\<open>step\<close> of
  \<^verbatim>\<open>system_sim_embodiment_b_MassProduction.py\<close> are the same function: for every
  configuration, state, elapsed time and noise sample they return the same successor state
  and the same result tuple. The constants of the second file are those of the first with
  another viscosity, magnet RPM and adhesion limit.
\<close>

theorem C5_variants_equal:
  "step_noise c s t noise = step_MassProduction c s t noise \<and>
   consts_MassProduction =
     consts_embodiment_b\<lparr> VISCOSITY := 0.6 / 10 ^ 3, RPM_MAGNET := 99.8,
                           ADHESION_LIMIT := 300 / 10 ^ 9 \<rparr>"
  by (simp add: step_noise_eq_MassProduction consts_MassProduction_def consts_embodiment_b_def)

subsection \<open>The sensor noise\<close>

text \<open>
  Claim C6, as the code has it. \<^verbatim>\<open>step\<close> takes the elapsed time only and draws the
  noise itself from numpy's global generator. It is a function of the state, the elapsed
  time and the value drawn: the generator moves on by one value, and two calls from equal
  states at equal times whose generators return the same value give the same successor
  state and the same result.
\<close>

theorem C6_step_function_of_drawn_noise:
  "step c (s, g) t =
     ((fst (step_noise c s t (g 0)), (\<lambda>n. g (Suc n))), snd (step_noise c s t (g 0))) \<and>
   (g 0 = g' 0 \<longrightarrow>
      fst (fst (step c (s, g) t)) = fst (fst (step c (s, g') t)) \<and>
      snd (step c (s, g) t) = snd (step c (s, g') t))"
  by (simp add: step_def random_normal_def split_def Let_def)

theorem C6_step_function_of_drawn_noise_witness:
  "first_then 0 (always 1) 0 = first_then 0 (always 2) 0 \<and>
   first_then 0 (always 1) \<noteq> first_then 0 (always 2) \<and>
   fst (fst (step consts_embodiment_b (init consts_embodiment_b, first_then 0 (always 1)) 0))
     = fst (fst (step consts_embodiment_b (init consts_embodiment_b, first_then 0 (always 2)) 0)) \<and>
   snd (step consts_embodiment_b (init consts_embodiment_b, first_then 0 (always 1)) 0)
     = snd (step consts_embodiment_b (init consts_embodiment_b, first_then 0 (always 2)) 0)"
proof -
  have e: "first_then 0 (always 1) 0 = first_then 0 (always 2) 0"
    by (simp add: first_then_def)
  have "first_then 0 (always 1) 1 \<noteq> first_then 0 (always 2) 1"
    by (simp add: first_then_def always_def)
  then have d: "first_then 0 (always 1) \<noteq> first_then 0 (always 2)"
    by metis
  show ?thesis
    using C6_step_function_of_drawn_noise[of consts_embodiment_b "init consts_embodiment_b"
        "first_then 0 (always 1)" 0 "first_then 0 (always 2)"] e d
    by blast
qed

text \<open>
  The claim as stated is false: the noise is not an input of \<^verbatim>\<open>step\<close>. Two calls from
  the same state at the same elapsed time, the global generator returning 0 in one and
  -0.0002 in the other, return different power inputs.
\<close>

theorem C6_hidden_generator_counterexample:
  "res_power_input (snd (step consts_embodiment_b (init consts_embodiment_b, always 0) 0)) = 0 \<and>
   res_power_input
     (snd (step consts_embodiment_b (init consts_embodiment_b, always (- 0.0002)) 0))
     = 10800025 / 10 ^ 8"
  by (simp add: step_def random_normal_def always_def split_def Let_def step_noise_fields
      pre_motion_def thermodynamics_def pid_control_def chemical_growth_def
      current_target_vel_def np_clip_def consts_embodiment_b_def init_def)

subsection \<open>The filament drag and the tension\<close>

text \<open>
  Claim C7. When the filament length after growth is at most \<open>10 * R_CNT\<close>, the filament
  drag coefficient is 0 and the tension returned by the step is 0. Otherwise the drag
  coefficient is \<open>2 pi VISCOSITY l / (ln (2 l / R_CNT) - 0.5)\<close>. In both cases the tension
  returned is the norm of the drift velocity times the filament drag coefficient.
\<close>

theorem C7_short_filament:
  "(cnt_length s + GROWTH_RATE c * DT c \<le> 10 * R_CNT c \<longrightarrow>
      gamma_cnt c (cnt_length s + GROWTH_RATE c * DT c) = 0 \<and>
      res_f_tension (snd (step_noise c s t noise)) = 0) \<and>
   (cnt_length s + GROWTH_RATE c * DT c > 10 * R_CNT c \<longrightarrow>
      gamma_cnt c (cnt_length s + GROWTH_RATE c * DT c) =
        2 * pi * VISCOSITY c * (cnt_length s + GROWTH_RATE c * DT c)
          / (ln (2 * (cnt_length s + GROWTH_RATE c * DT c) / R_CNT c) - 0.5)) \<and>
   res_f_tension (snd (step_noise c s t noise)) =
     linalg_norm (v_drift c (pre_motion c s t noise) t)
       * gamma_cnt c (cnt_length s + GROWTH_RATE c * DT c)"
  by (simp add: step_noise_fields f_tension_def gamma_cnt_unfold)

theorem C7_short_filament_witness:
  "cnt_length (init consts_embodiment_b) + GROWTH_RATE consts_embodiment_b * DT consts_embodiment_b
     \<le> 10 * R_CNT consts_embodiment_b \<and>
   res_f_tension (snd (step_noise consts_embodiment_b (init consts_embodiment_b) 0 0)) = 0 \<and>
   10 * R_CNT consts_embodiment_b
     < cnt_length opposite_state + GROWTH_RATE consts_embodiment_b * DT consts_embodiment_b \<and>
   gamma_cnt consts_embodiment_b
       (cnt_length opposite_state + GROWTH_RATE consts_embodiment_b * DT consts_embodiment_b)
     = 2 * pi * VISCOSITY consts_embodiment_b
         * (cnt_length opposite_state + GROWTH_RATE consts_embodiment_b * DT consts_embodiment_b)
         / (ln (2 * (cnt_length opposite_state
                      + GROWTH_RATE consts_embodiment_b * DT consts_embodiment_b)
                  / R_CNT consts_embodiment_b) - 0.5)"
proof -
  have short: "cnt_length (init consts_embodiment_b)
      + GROWTH_RATE consts_embodiment_b * DT consts_embodiment_b
      \<le> 10 * R_CNT consts_embodiment_b"
    by (simp add: init_def consts_embodiment_b_def)
  have long: "10 * R_CNT consts_embodiment_b
      < cnt_length opposite_state + GROWTH_RATE consts_embodiment_b * DT consts_embodiment_b"
    unfolding opposite_growth by (simp add: consts_embodiment_b_def)
  show ?thesis
    using C7_short_filament[of "init consts_embodiment_b" consts_embodiment_b 0 0]
      C7_short_filament[of opposite_state consts_embodiment_b 6 0] short long
    by blast
qed

subsection \<open>The fluid velocity field\<close>

text \<open>
  Claim C8. At every position whose distance from the axis is below \<open>1e-6\<close> (the test of
  the code is \<open>r < 1e-6\<close>), and so on the axis itself, the fluid velocity is
  \<open>(0, 0, LIFT_SPEED)\<close>; at every position the axial component of the fluid velocity is
  \<open>LIFT_SPEED\<close>.
\<close>

theorem C8_velocity_field:
  "(sqrt (x\<^sup>2 + y\<^sup>2) < 1 / 10 ^ 6 \<longrightarrow>
      get_fluid_velocity_field c (x, y, z) = (0, 0, LIFT_SPEED c)) \<and>
   get_fluid_velocity_field c (0, 0, z) = (0, 0, LIFT_SPEED c) \<and>
   idx2 (get_fluid_velocity_field c (x, y, z)) = LIFT_SPEED c"
  by (simp add: get_fluid_velocity_field_idx2) (simp add: get_fluid_velocity_field_def Let_def)

theorem C8_velocity_field_witness:
  "sqrt ((3 / 10 ^ 7)\<^sup>2 + (4 / 10 ^ 7)\<^sup>2) < (1 / 10 ^ 6 :: real) \<and>
   get_fluid_velocity_field consts_embodiment_b (3 / 10 ^ 7, 4 / 10 ^ 7, 1)
     = (0, 0, LIFT_SPEED consts_embodiment_b)"
proof -
  have "sqrt ((3 / 10 ^ 7)\<^sup>2 + (4 / 10 ^ 7)\<^sup>2) < (1 / 10 ^ 6 :: real)"
    by (rule real_less_lsqrt) (simp_all add: power_divide)
  then show ?thesis
    using C8_velocity_field[of "3 / 10 ^ 7" "4 / 10 ^ 7" consts_embodiment_b 1] by blast
qed

subsection \<open>The thermal energy\<close>

text \<open>
  Claim C9. With a time step in (0, 0.5]: a step computes the new thermal energy as
  \<open>max 0 (E + (power_input - 2 E) DT)\<close> from the new power input, and this keeps a thermal
  energy of at most 75 at most 75; so after any number of steps from the initial state the
  thermal energy is at most 75 and the vapor radius at most \<open>(75 * 1e-13) powr (1/3)\<close>.
\<close>

theorem C9_thermal_bound:
  assumes "0 < DT c" and "DT c \<le> 1 / 2"
  shows "(thermal_energy s \<le> 75 \<longrightarrow> thermal_energy (fst (step_noise c s t noise)) \<le> 75) \<and>
         thermal_energy (fst (step_noise c s t noise)) =
           max 0 (thermal_energy s
             + (power_input (fst (step_noise c s t noise)) - 2 * thermal_energy s) * DT c) \<and>
         thermal_energy (run c (init c) ins) \<le> 75 \<and>
         r_vapor (run c (init c) ins) \<le> (75 * (1 / 10 ^ 13)) powr (1 / 3)"
  using thermal_bounded_run[OF assms thermal_bounded_init, of c ins]
    pre_motion_thermal_le[OF assms, of s t noise]
  by (simp add: thermal_bounded_def step_noise_fields pre_motion_thermal_energy mult.commute)

theorem C9_thermal_bound_witness:
  "0 < DT consts_embodiment_b \<and> DT consts_embodiment_b \<le> 1 / 2 \<and>
   thermal_energy (init consts_embodiment_b) \<le> 75 \<and>
   thermal_energy (fst (step_noise consts_embodiment_b (init consts_embodiment_b) 0 0)) \<le> 75 \<and>
   thermal_energy (run consts_embodiment_b (init consts_embodiment_b) [(0, 0), (0.0005, 0.0002)])
     \<le> 75 \<and>
   r_vapor (run consts_embodiment_b (init consts_embodiment_b) [(0, 0), (0.0005, 0.0002)])
     \<le> (75 * (1 / 10 ^ 13)) powr (1 / 3)"
proof -
  have h: "0 < DT consts_embodiment_b" "DT consts_embodiment_b \<le> 1 / 2"
    by (simp_all add: consts_embodiment_b_def)
  have e: "thermal_energy (init consts_embodiment_b) \<le> 75"
    by (simp add: init_def)
  show ?thesis
    using C9_thermal_bound[OF h, of "init consts_embodiment_b" 0 0 "[(0, 0), (0.0005, 0.0002)]"]
      h e
    by blast
qed

subsection \<open>The vertical velocity\<close>

text \<open>
  Claim C10. The vertical velocity stored by a step is the lift speed plus buoyancy minus
  gravity over the total drag coefficient, where buoyancy is a function of the vapor
  radius and gravity of the filament length. The magnetic force and the centrifugal force
  have no axial component and the axial component of the fluid velocity is the lift speed;
  so neither the position of the particle nor the radius, the rotation rate and the
  stiffness of the trap change the vertical velocity.
\<close>

theorem C10_vertical_velocity:
  "current_z_vel_real (fst (step_noise c s t noise)) =
     LIFT_SPEED c
       + (f_buoy c (r_vapor (pre_motion c s t noise))
            - f_grav c (cnt_length (pre_motion c s t noise)))
         / gamma_total c (r_vapor (pre_motion c s t noise)) (cnt_length (pre_motion c s t noise)) \<and>
   idx2 (f_mag c (pre_motion c s t noise) t) = 0 \<and>
   idx2 (f_cent c (pre_motion c s t noise)) = 0 \<and>
   idx2 (get_fluid_velocity_field c (pos s)) = LIFT_SPEED c \<and>
   current_z_vel_real (fst (step_noise c (s\<lparr>pos := p\<rparr>) t noise)) =
     current_z_vel_real (fst (step_noise c s t noise)) \<and>
   current_z_vel_real
       (fst (step_noise (c\<lparr>R_TANK := a, RPM_MAGNET := b, MAGNET_STIFFNESS := k\<rparr>) s t noise)) =
     current_z_vel_real (fst (step_noise c s t noise))"
  by (simp add: step_noise_fields idx2_v_total f_z_net_def[symmetric] idx2_f_mag idx2_f_cent
      get_fluid_velocity_field_idx2 pre_motion_set_pos pre_motion_trap_config
      f_z_net_trap_config gamma_total_trap_config del: pre_motion_cnt_length)

end
